theory Spec2Isabelle
  imports Main "HOL-Library.Product_Lexorder"
begin

section \<open>Python values\<close>

text \<open>
  A Python \<open>str\<close> is a sequence of Unicode code points; a code point is a natural
  number.  \<open>lit\<close> turns an ASCII literal of the source into such a sequence.
\<close>

type_synonym pystr = "nat list"

definition lit :: "string \<Rightarrow> pystr" where
  "lit s = map of_char s"

text \<open>Exceptions are values: a function that may raise returns \<open>error + 'a\<close>.\<close>

datatype error =
  ValueError | InvalidOperation | OverflowError | KeyError | SystemExit | UnicodeEncodeError

definition and_then :: "error + 'a \<Rightarrow> ('a \<Rightarrow> error + 'b) \<Rightarrow> error + 'b" where
  "and_then m f = (case m of Inl e \<Rightarrow> Inl e | Inr v \<Rightarrow> f v)"

text \<open>
  The tables of the Unicode character database that the source consults through
  \<open>str.upper\<close>, the regex class \<open>\d\<close> (also \<open>int()\<close> and \<open>Decimal()\<close> on
  digit strings) and \<open>str.isdigit\<close>.  They are data of the Python runtime, not of this
  repository, and are a parameter of every function that uses them.
\<close>

record unicode_db =
  to_upper :: "nat \<Rightarrow> nat list"
  decimal_digit :: "nat \<Rightarrow> nat option"
  digit_char :: "nat \<Rightarrow> bool"

text \<open>The code points that \<open>str.strip()\<close> and \<open>str.split()\<close> treat as whitespace.\<close>

definition isspace :: "nat \<Rightarrow> bool" where
  "isspace c = (c \<in> set [9, 10, 11, 12, 13, 28, 29, 30, 31, 32, 133, 160, 5760,
                          8232, 8233, 8239, 8287, 12288] \<or> (8192 \<le> c \<and> c \<le> 8202))"

definition strip :: "pystr \<Rightarrow> pystr" where
  "strip s = rev (dropWhile isspace (rev (dropWhile isspace s)))"

text \<open>\<open>s.split()\<close>: the maximal runs of non-whitespace; \<open>cur\<close> is the run being read.\<close>

fun split_from :: "pystr \<Rightarrow> pystr \<Rightarrow> pystr list" where
  "split_from cur [] = (if cur = [] then [] else [cur])"
| "split_from cur (c # cs) =
     (if isspace c then (if cur = [] then split_from [] cs else cur # split_from [] cs)
      else split_from (cur @ [c]) cs)"

definition split_ws :: "pystr \<Rightarrow> pystr list" where
  "split_ws s = split_from [] s"

fun str_join :: "pystr \<Rightarrow> pystr list \<Rightarrow> pystr" where
  "str_join sep [] = []"
| "str_join sep [w] = w"
| "str_join sep (w # ws) = w @ sep @ str_join sep ws"

text \<open>\<open>s.replace(old, new)\<close> for a one-character \<open>old\<close>.\<close>

definition replace_chr :: "nat \<Rightarrow> pystr \<Rightarrow> pystr \<Rightarrow> pystr" where
  "replace_chr old new s = concat (map (\<lambda>c. if c = old then new else [c]) s)"

definition upper :: "unicode_db \<Rightarrow> pystr \<Rightarrow> pystr" where
  "upper U s = concat (map (to_upper U) s)"

definition rjust :: "pystr \<Rightarrow> nat \<Rightarrow> nat \<Rightarrow> pystr" where
  "rjust s width fill = replicate (width - length s) fill @ s"

definition ljust :: "pystr \<Rightarrow> nat \<Rightarrow> nat \<Rightarrow> pystr" where
  "ljust s width fill = s @ replicate (width - length s) fill"

text \<open>The slice \<open>s[i:j]\<close> for \<open>0 \<le> i \<le> j\<close>.\<close>

definition slice :: "nat \<Rightarrow> nat \<Rightarrow> 'a list \<Rightarrow> 'a list" where
  "slice i j s = take (j - i) (drop i s)"

definition startswith :: "pystr \<Rightarrow> pystr \<Rightarrow> bool" where
  "startswith s p = (take (length p) s = p)"

text \<open>\<open>str.isdigit()\<close>: non-empty and every character a digit.\<close>

definition isdigit :: "unicode_db \<Rightarrow> pystr \<Rightarrow> bool" where
  "isdigit U s = (s \<noteq> [] \<and> list_all (digit_char U) s)"

text \<open>\<open>f"{n:d}"\<close> and \<open>f"{n:07d}"\<close>.\<close>

fun digits_of :: "nat \<Rightarrow> pystr" where
  "digits_of n = (if n < 10 then [48 + n] else digits_of (n div 10) @ [48 + n mod 10])"

declare digits_of.simps [simp del]

definition format_d :: "int \<Rightarrow> pystr" where
  "format_d n = (if n < 0 then 45 # digits_of (nat (- n)) else digits_of (nat n))"

definition format_0d :: "nat \<Rightarrow> nat \<Rightarrow> pystr" where
  "format_0d w n = rjust (digits_of n) w 48"


section \<open>The decimal module\<close>

text \<open>
  A \<open>Decimal\<close> is a sign, a coefficient and an exponent, with value
  \<open>(-1)^sign * coefficient * 10^exponent\<close>, or an infinity, or a NaN (quiet or
  signaling).  Arithmetic runs in the default context: precision 28, rounding
  \<open>ROUND_HALF_EVEN\<close>, \<open>InvalidOperation\<close> trapped (raised).  The exponent limits of
  the context (\<open>Emax = 999999\<close>, \<open>Emin = -999999\<close>) are not modelled.
\<close>

datatype decimal =
  Finite (d_sign: bool) (d_int: nat) (d_exp: int)
| Infinity bool
| NaN bool

definition prec :: nat where
  "prec = 28"

text \<open>\<open>len(self._int)\<close>: the number of digits of the coefficient.\<close>

fun ndigits :: "nat \<Rightarrow> nat" where
  "ndigits n = (if n < 10 then 1 else Suc (ndigits (n div 10)))"

declare ndigits.simps [simp del]

text \<open>
  Dropping the last \<open>k\<close> digits of a coefficient under \<open>ROUND_HALF_EVEN\<close>: up when the
  dropped part is more than half a unit of the kept part, or exactly half and the kept
  part is odd.
\<close>

definition round_half_even :: "nat \<Rightarrow> nat \<Rightarrow> nat" where
  "round_half_even c k =
     (let q = c div 10 ^ k; r = c mod 10 ^ k
      in if 2 * r > 10 ^ k \<or> (2 * r = 10 ^ k \<and> odd q) then q + 1 else q)"

text \<open>\<open>Decimal._fix\<close>: round a result to the precision of the context.\<close>

definition dec_fix :: "decimal \<Rightarrow> decimal" where
  "dec_fix x =
     (case x of
        Finite s c e \<Rightarrow>
          if ndigits c \<le> prec then x
          else let k = ndigits c - prec; c' = round_half_even c k
               in if ndigits c' > prec then Finite s (c' div 10) (e + int k + 1)
                  else Finite s c' (e + int k)
      | _ \<Rightarrow> x)"

text \<open>\<open>amount >= 0\<close>: an ordering comparison with a NaN raises.\<close>

definition dec_ge_zero :: "decimal \<Rightarrow> error + bool" where
  "dec_ge_zero x =
     (case x of
        Finite s c e \<Rightarrow> Inr (\<not> s \<or> c = 0)
      | Infinity s \<Rightarrow> Inr (\<not> s)
      | NaN sig \<Rightarrow> Inl InvalidOperation)"

text \<open>\<open>abs(amount)\<close>.\<close>

definition dec_abs :: "decimal \<Rightarrow> error + decimal" where
  "dec_abs x =
     (case x of
        Finite s c e \<Rightarrow> Inr (dec_fix (Finite False c e))
      | Infinity s \<Rightarrow> Inr (Infinity False)
      | NaN sig \<Rightarrow> if sig then Inl InvalidOperation else Inr (NaN False))"

text \<open>\<open>amount * n\<close> for a Python \<open>int\<close> \<open>n \<ge> 0\<close>, which is converted exactly.\<close>

definition dec_mul_int :: "decimal \<Rightarrow> nat \<Rightarrow> error + decimal" where
  "dec_mul_int x n =
     (case x of
        Finite s c e \<Rightarrow> Inr (dec_fix (Finite s (c * n) e))
      | Infinity s \<Rightarrow> if n = 0 then Inl InvalidOperation else Inr (Infinity s)
      | NaN sig \<Rightarrow> if sig then Inl InvalidOperation else Inr (NaN False))"

text \<open>
  \<open>x.quantize(Decimal("1"))\<close>: the value rounded to exponent 0; it raises when the
  result would have more digits than the precision.
\<close>

definition quantize_1 :: "decimal \<Rightarrow> error + decimal" where
  "quantize_1 x =
     (case x of
        Finite s c e \<Rightarrow>
          if c = 0 then Inr (Finite s 0 0)
          else if e + int (ndigits c) > int prec then Inl InvalidOperation
          else let c' = (if e \<ge> 0 then c * 10 ^ nat e else round_half_even c (nat (- e)))
               in if ndigits c' > prec then Inl InvalidOperation else Inr (Finite s c' 0)
      | Infinity s \<Rightarrow> Inl InvalidOperation
      | NaN sig \<Rightarrow> if sig then Inl InvalidOperation else Inr (NaN False))"

text \<open>\<open>int(x)\<close>: truncation towards zero.\<close>

definition dec_to_int :: "decimal \<Rightarrow> error + int" where
  "dec_to_int x =
     (case x of
        Finite s c e \<Rightarrow>
          (let m = (if e \<ge> 0 then c * 10 ^ nat e else c div 10 ^ nat (- e))
           in Inr (if s then - int m else int m))
      | Infinity s \<Rightarrow> Inl OverflowError
      | NaN sig \<Rightarrow> Inl ValueError)"

text \<open>
  \<open>a + b\<close>: the exact sum at the smaller exponent, rounded to the precision.  With a
  zero operand the other one is rescaled, by at most \<open>prec + 1\<close> places.
\<close>

definition signed :: "bool \<Rightarrow> nat \<Rightarrow> int" where
  "signed s c = (if s then - int c else int c)"

definition dec_add :: "decimal \<Rightarrow> decimal \<Rightarrow> error + decimal" where
  "dec_add a b =
     (case (a, b) of
        (Finite s1 c1 e1, Finite s2 c2 e2) \<Rightarrow>
          (let e = min e1 e2 in
           if c1 = 0 \<and> c2 = 0 then Inr (dec_fix (Finite (s1 \<and> s2) 0 e))
           else if c1 = 0 then
             (let e' = max e (e2 - int prec - 1)
              in Inr (dec_fix (Finite s2 (c2 * 10 ^ nat (e2 - e')) e')))
           else if c2 = 0 then
             (let e' = max e (e1 - int prec - 1)
              in Inr (dec_fix (Finite s1 (c1 * 10 ^ nat (e1 - e')) e')))
           else
             (let r = signed s1 (c1 * 10 ^ nat (e1 - e)) + signed s2 (c2 * 10 ^ nat (e2 - e))
              in Inr (dec_fix (Finite (r < 0) (nat \<bar>r\<bar>) e))))
      | (NaN sig, Finite s2 c2 e2) \<Rightarrow> if sig then Inl InvalidOperation else Inr (NaN False)
      | (NaN sig, Infinity s2) \<Rightarrow> if sig then Inl InvalidOperation else Inr (NaN False)
      | (NaN sig, NaN sig2) \<Rightarrow> if sig \<or> sig2 then Inl InvalidOperation else Inr (NaN False)
      | (Finite s1 c1 e1, NaN sig2) \<Rightarrow> if sig2 then Inl InvalidOperation else Inr (NaN False)
      | (Infinity s1, NaN sig2) \<Rightarrow> if sig2 then Inl InvalidOperation else Inr (NaN False)
      | (Infinity s1, Infinity s2) \<Rightarrow> if s1 \<noteq> s2 then Inl InvalidOperation else Inr (Infinity s1)
      | (Infinity s1, Finite s2 c2 e2) \<Rightarrow> Inr (Infinity s1)
      | (Finite s1 c1 e1, Infinity s2) \<Rightarrow> Inr (Infinity s2))"

definition copy_negate :: "decimal \<Rightarrow> decimal" where
  "copy_negate x =
     (case x of
        Finite s c e \<Rightarrow> Finite (\<not> s) c e
      | Infinity s \<Rightarrow> Infinity (\<not> s)
      | NaN sig \<Rightarrow> NaN sig)"

definition dec_sub :: "decimal \<Rightarrow> decimal \<Rightarrow> error + decimal" where
  "dec_sub a b = dec_add a (copy_negate b)"


section \<open>csv\_to\_cfonb120final.py\<close>

subsection \<open>Constants\<close>

definition CREDIT_MAP :: "(nat \<times> nat) list" where
  "CREDIT_MAP = map (\<lambda>(k, v). (of_char k, of_char v))
     [(CHR ''0'', CHR ''{''), (CHR ''1'', CHR ''A''), (CHR ''2'', CHR ''B''),
      (CHR ''3'', CHR ''C''), (CHR ''4'', CHR ''D''), (CHR ''5'', CHR ''E''),
      (CHR ''6'', CHR ''F''), (CHR ''7'', CHR ''G''), (CHR ''8'', CHR ''H''),
      (CHR ''9'', CHR ''I'')]"

definition DEBIT_MAP :: "(nat \<times> nat) list" where
  "DEBIT_MAP = map (\<lambda>(k, v). (of_char k, of_char v))
     [(CHR ''0'', CHR ''}''), (CHR ''1'', CHR ''J''), (CHR ''2'', CHR ''K''),
      (CHR ''3'', CHR ''L''), (CHR ''4'', CHR ''M''), (CHR ''5'', CHR ''N''),
      (CHR ''6'', CHR ''O''), (CHR ''7'', CHR ''P''), (CHR ''8'', CHR ''Q''),
      (CHR ''9'', CHR ''R'')]"

definition CFONB_WIDTH :: nat where
  "CFONB_WIDTH = 120"

definition AMOUNT_WIDTH :: nat where
  "AMOUNT_WIDTH = 14"

text \<open>\<open>d[k]\<close> on a dict: a missing key raises.\<close>

definition dict_get :: "(nat \<times> nat) list \<Rightarrow> nat \<Rightarrow> error + nat" where
  "dict_get d k = (case map_of d k of None \<Rightarrow> Inl KeyError | Some v \<Rightarrow> Inr v)"

subsection \<open>cfonb\_encode\_amount\<close>

text \<open>
  \<open>int((abs(amount) * (10 ** decimals)).quantize(Decimal("1")))\<close>.  \<open>decimals\<close> is a
  natural number: for a negative one \<open>10 ** decimals\<close> is a float, which \<open>Decimal\<close>
  refuses to multiply with.
\<close>

definition scaled_int :: "decimal \<Rightarrow> nat \<Rightarrow> error + int" where
  "scaled_int amount decimals =
     and_then (dec_abs amount) (\<lambda>amount.
     and_then (dec_mul_int amount (10 ^ decimals)) (\<lambda>product.
     and_then (quantize_1 product) (\<lambda>scaled.
     dec_to_int scaled)))"

definition cfonb_encode_amount :: "decimal \<Rightarrow> nat \<Rightarrow> nat \<Rightarrow> error + pystr" where
  "cfonb_encode_amount amount decimals width =
     and_then (dec_ge_zero amount) (\<lambda>ge.
     let sign = (if ge then 1 else - 1 :: int) in
     and_then (scaled_int amount decimals) (\<lambda>scaled.
     let digits = format_d scaled in
     if length digits > width then Inl ValueError
     else
       let digits = rjust digits width 48;
           last_digit = last digits
       in and_then (if sign \<ge> 0 then dict_get CREDIT_MAP last_digit
                    else dict_get DEBIT_MAP last_digit) (\<lambda>encoded_last.
          Inr (butlast digits @ [encoded_last]))))"

subsection \<open>parse\_iban\_fr\<close>

definition parse_iban_fr :: "unicode_db \<Rightarrow> pystr \<Rightarrow> error + (pystr \<times> pystr \<times> pystr \<times> pystr)" where
  "parse_iban_fr U iban0 =
     (let iban = upper U (replace_chr 32 [] iban0) in
      if \<not> startswith iban (lit ''FR'') \<or> length iban < 27 then Inl ValueError
      else
        let bban = drop 4 iban;
            bank_code = slice 0 5 bban;
            branch_code = slice 5 10 bban;
            account_number = slice 10 21 bban;
            account_key = slice 21 23 bban
        in if \<not> (isdigit U bank_code \<and> isdigit U branch_code \<and>
                  isdigit U account_number \<and> isdigit U account_key)
           then Inl ValueError
           else Inr (bank_code, branch_code, account_number, account_key))"

subsection \<open>parse\_amount\<close>

text \<open>
  The constructor \<open>Decimal(s)\<close> on a string: surrounding whitespace and all
  underscores are dropped; then an optional sign, and either digits with an optional
  point and an optional exponent, or an infinity, or a NaN, in any letter case.  It
  does not round.  \<open>None\<close> stands for \<open>InvalidOperation\<close>.
\<close>

definition ascii_lower :: "nat \<Rightarrow> nat" where
  "ascii_lower c = (if 65 \<le> c \<and> c \<le> 90 then c + 32 else c)"

definition is_d :: "unicode_db \<Rightarrow> nat \<Rightarrow> bool" where
  "is_d U c = (decimal_digit U c \<noteq> None)"

definition int_of_digits :: "unicode_db \<Rightarrow> pystr \<Rightarrow> nat" where
  "int_of_digits U s =
     foldl (\<lambda>a c. 10 * a + (case decimal_digit U c of Some v \<Rightarrow> v | None \<Rightarrow> 0)) 0 s"

definition split_sign :: "pystr \<Rightarrow> bool \<times> pystr" where
  "split_sign s =
     (case s of
        [] \<Rightarrow> (False, [])
      | c # t \<Rightarrow> if c = 45 then (True, t) else if c = 43 then (False, t) else (False, s))"

definition parse_numeral :: "unicode_db \<Rightarrow> pystr \<Rightarrow> (nat \<times> int) option" where
  "parse_numeral U r =
     (let ip = takeWhile (is_d U) r;
          r1 = dropWhile (is_d U) r;
          (fp, r2) = (case r1 of
                        [] \<Rightarrow> ([], [])
                      | c # t \<Rightarrow> if c = 46 then (takeWhile (is_d U) t, dropWhile (is_d U) t)
                                 else ([], r1))
      in if ip = [] \<and> fp = [] then None
         else
           (case r2 of
              [] \<Rightarrow> Some (int_of_digits U (ip @ fp), - int (length fp))
            | c # t \<Rightarrow>
                if ascii_lower c \<noteq> 101 then None
                else
                  (let (es, ds) = split_sign t in
                   if ds = [] \<or> \<not> list_all (is_d U) ds then None
                   else Some (int_of_digits U (ip @ fp),
                              (if es then - int (int_of_digits U ds) else int (int_of_digits U ds))
                                - int (length fp)))))"

definition Decimal_of_str :: "unicode_db \<Rightarrow> pystr \<Rightarrow> decimal option" where
  "Decimal_of_str U v =
     (let (sgn, r) = split_sign (filter (\<lambda>c. c \<noteq> 95) (strip v));
          l = map ascii_lower r
      in case parse_numeral U r of
           Some (c, e) \<Rightarrow> Some (Finite sgn c e)
         | None \<Rightarrow>
             if l = lit ''inf'' \<or> l = lit ''infinity'' then Some (Infinity sgn)
             else if startswith l (lit ''nan'') \<and> list_all (is_d U) (drop 3 l)
               then Some (NaN False)
             else if startswith l (lit ''snan'') \<and> list_all (is_d U) (drop 4 l)
               then Some (NaN True)
             else None)"

text \<open>
  \<open>raw\<close> is a cell of a csv row, never \<open>None\<close>.  The result \<open>Inr None\<close> is the
  return value \<open>None\<close> for a blank cell.
\<close>

definition parse_amount :: "unicode_db \<Rightarrow> pystr \<Rightarrow> error + decimal option" where
  "parse_amount U raw =
     (let s = strip raw in
      if s = [] then Inr None
      else
        let s = replace_chr 160 [] (replace_chr 32 [] s);
            s = replace_chr 44 [46] s
        in case Decimal_of_str U s of
             None \<Rightarrow> Inl ValueError
           | Some d \<Rightarrow> Inr (Some d))"

subsection \<open>sanitize\_label\<close>

text \<open>\<open>s.encode("latin1", "replace").decode("latin1")\<close>: a question mark for every
  code point above 255.\<close>

definition latin1_replace :: "pystr \<Rightarrow> pystr" where
  "latin1_replace s = map (\<lambda>c. if c < 256 then c else 63) s"

definition sanitize_label :: "unicode_db \<Rightarrow> pystr \<Rightarrow> pystr" where
  "sanitize_label U label =
     (let label = str_join [32] (split_ws (strip label));
          label = upper U label
      in latin1_replace label)"

subsection \<open>build\_line\<close>

text \<open>
  The inner function \<open>put\<close> assigns to a slice of the list \<open>line\<close> of the enclosing
  call; here it takes the list and returns the new one.  It is called with constant
  \<open>start \<le> end \<le> 120\<close> only.
\<close>

definition put :: "pystr \<Rightarrow> nat \<Rightarrow> nat \<Rightarrow> pystr \<Rightarrow> pystr \<Rightarrow> pystr" where
  "put line start end value align =
     (let width = end - start;
          value = take width value;
          value = (if align = lit ''right'' then rjust value width 32
                   else ljust value width 32)
      in take start line @ value @ drop end line)"

definition build_line ::
  "pystr \<Rightarrow> pystr \<Rightarrow> pystr \<Rightarrow> pystr \<Rightarrow> pystr \<Rightarrow> pystr \<Rightarrow> pystr \<Rightarrow> pystr \<Rightarrow> pystr \<Rightarrow> pystr \<Rightarrow> pystr"
where
  "build_line rec_type bank_code branch_code account_number date_ddmmyy amount_str
              name ref comp_type comp_info =
     (let line = replicate CFONB_WIDTH 32;
          line = put line 0 2 rec_type (lit ''left'');
          line = put line 2 7 bank_code (lit ''left'');
          line = put line 11 16 branch_code (lit ''left'');
          line = put line 16 19 (lit ''EUR'') (lit ''left'');
          line = put line 19 20 (lit ''2'') (lit ''left'');
          line = put line 21 32 account_number (lit ''left'');
          line = put line 34 40 date_ddmmyy (lit ''left'');
          line = (if rec_type = lit ''05''
                  then put (put line 45 48 comp_type (lit ''left''))
                           48 118 comp_info (lit ''left'')
                  else put (put line 48 79 name (lit ''left''))
                           81 88 ref (lit ''left''));
          line = (if amount_str \<noteq> [] then put line 90 104 amount_str (lit ''right'')
                  else line)
      in line)"

subsection \<open>parse\_csv\_transactions\<close>

text \<open>
  \<open>DATE_RE.match(s)\<close> for \<open>^\d{2}/\d{2}/\d{4}$\<close>: \<open>$\<close> also matches before a
  newline that ends the string.
\<close>

fun date_shape :: "unicode_db \<Rightarrow> pystr \<Rightarrow> bool" where
  "date_shape U [d1, d2, s1, m1, m2, s2, y1, y2, y3, y4] =
     (is_d U d1 \<and> is_d U d2 \<and> s1 = 47 \<and> is_d U m1 \<and> is_d U m2 \<and> s2 = 47 \<and>
      is_d U y1 \<and> is_d U y2 \<and> is_d U y3 \<and> is_d U y4)"
| "date_shape U s = False"

definition DATE_RE_match :: "unicode_db \<Rightarrow> pystr \<Rightarrow> bool" where
  "DATE_RE_match U s =
     (date_shape U s \<or> (s \<noteq> [] \<and> last s = 10 \<and> date_shape U (butlast s)))"

text \<open>A \<open>datetime.date\<close>: year, month, day; dates compare in this order.\<close>

type_synonym date = "nat \<times> nat \<times> nat"

definition is_leap :: "nat \<Rightarrow> bool" where
  "is_leap y = (y mod 4 = 0 \<and> (y mod 100 \<noteq> 0 \<or> y mod 400 = 0))"

definition days_in_month :: "nat \<Rightarrow> nat \<Rightarrow> nat" where
  "days_in_month y m =
     (if m = 2 then (if is_leap y then 29 else 28)
      else if m \<in> set [4, 6, 9, 11] then 30 else 31)"

text \<open>
  \<open>datetime.strptime(s, "%d/%m/%Y").date()\<close>, which the source calls on strings that
  match \<open>DATE_RE\<close> only: day \<open>3[0-1]|[1-2]\d|0[1-9]\<close>, month \<open>1[0-2]|0[1-9]\<close>,
  year \<open>\d\d\d\d\<close>, and the three must form a date of the calendar (year 1 at least).
\<close>

fun strptime_dmY :: "unicode_db \<Rightarrow> pystr \<Rightarrow> error + date" where
  "strptime_dmY U [d1, d2, s1, m1, m2, s2, y1, y2, y3, y4] =
     (if \<not> ((d1 = 51 \<and> (d2 = 48 \<or> d2 = 49)) \<or>
             ((d1 = 49 \<or> d1 = 50) \<and> is_d U d2) \<or>
             (d1 = 48 \<and> 49 \<le> d2 \<and> d2 \<le> 57)) then Inl ValueError
      else if s1 \<noteq> 47 \<or> s2 \<noteq> 47 then Inl ValueError
      else if \<not> ((m1 = 49 \<and> 48 \<le> m2 \<and> m2 \<le> 50) \<or> (m1 = 48 \<and> 49 \<le> m2 \<and> m2 \<le> 57))
        then Inl ValueError
      else if \<not> (is_d U y1 \<and> is_d U y2 \<and> is_d U y3 \<and> is_d U y4) then Inl ValueError
      else
        let day = int_of_digits U [d1, d2];
            month = int_of_digits U [m1, m2];
            year = int_of_digits U [y1, y2, y3, y4]
        in if year < 1 \<or> day > days_in_month year month then Inl ValueError
           else Inr (year, month, day))"
| "strptime_dmY U s = Inl ValueError"

record transaction =
  tx_date :: date
  tx_amount :: decimal
  tx_label :: pystr

text \<open>
  The loop over the rows that \<open>csv.reader\<close> yields, with the loop's variables
  \<open>started\<close>, \<open>opening_balance\<close> and \<open>transactions\<close> as arguments.
\<close>

fun parse_rows ::
  "unicode_db \<Rightarrow> bool \<Rightarrow> decimal option \<Rightarrow> transaction list \<Rightarrow> pystr list list
     \<Rightarrow> error + (decimal option \<times> transaction list)"
where
  "parse_rows U started opening_balance transactions [] =
     Inr (opening_balance, transactions)"
| "parse_rows U started opening_balance transactions (row0 # rest) =
     (if row0 = [] then parse_rows U started opening_balance transactions rest
      else
        let row = row0 @ replicate (6 - length row0) [] in
        if \<not> started \<and> \<not> DATE_RE_match U (strip (row ! 0))
        then parse_rows U started opening_balance transactions rest
        else if \<not> DATE_RE_match U (strip (row ! 0)) \<and> DATE_RE_match U (strip (row ! 3))
        then
          (case parse_amount U (row ! 5) of
             Inl e \<Rightarrow> Inl e
           | Inr b \<Rightarrow> parse_rows U True b transactions rest)
        else if \<not> DATE_RE_match U (strip (row ! 0))
        then parse_rows U True opening_balance transactions rest
        else
          let date_str = strip (row ! 0) in
          (case parse_amount U (row ! 4) of
             Inl e \<Rightarrow> Inl e
           | Inr None \<Rightarrow> parse_rows U True opening_balance transactions rest
           | Inr (Some amount) \<Rightarrow>
               let label_parts = [row ! 1, row ! 2, row ! 3];
                   label = str_join [32] (filter (\<lambda>p. p \<noteq> [] \<and> strip p \<noteq> []) label_parts)
               in (case strptime_dmY U date_str of
                     Inl e \<Rightarrow> Inl e
                   | Inr d \<Rightarrow>
                       parse_rows U True opening_balance
                         (transactions @
                            [\<lparr>tx_date = d, tx_amount = amount,
                              tx_label = sanitize_label U label\<rparr>])
                         rest)))"

definition parse_csv_transactions ::
  "unicode_db \<Rightarrow> pystr list list \<Rightarrow> error + (decimal option \<times> transaction list)" where
  "parse_csv_transactions U rows = parse_rows U False None [] rows"

subsection \<open>main\<close>

datatype balance_mode = mode_opening | mode_closing

text \<open>\<open>d.strftime("%d%m%y")\<close>.\<close>

definition strftime_dmy :: "date \<Rightarrow> pystr" where
  "strftime_dmy d =
     (case d of (year, month, day) \<Rightarrow>
        format_0d 2 day @ format_0d 2 month @ format_0d 2 (year mod 100))"

text \<open>
  \<open>sum(t["amount"] for t in transactions)\<close>: the built-in starts from the integer 0,
  and \<open>0 + a\<close> is \<open>a.__radd__(0)\<close>, the sum of \<open>a\<close> and \<open>Decimal(0)\<close>.
\<close>

fun sum_from :: "decimal \<Rightarrow> decimal list \<Rightarrow> error + decimal" where
  "sum_from acc [] = Inr acc"
| "sum_from acc (a # as) = and_then (dec_add acc a) (\<lambda>acc'. sum_from acc' as)"

definition sum_amounts :: "decimal list \<Rightarrow> error + decimal" where
  "sum_amounts as =
     (case as of
        [] \<Rightarrow> Inr (Finite False 0 0)
      | a # rest \<Rightarrow> and_then (dec_add a (Finite False 0 0)) (\<lambda>acc. sum_from acc rest))"

text \<open>Lines 161 to 171: the start and the end balance of the statement.\<close>

definition statement_balances ::
  "balance_mode \<Rightarrow> decimal option \<Rightarrow> transaction list \<Rightarrow> error + (decimal \<times> decimal)" where
  "statement_balances mode opening_balance transactions =
     and_then (sum_amounts (map tx_amount transactions)) (\<lambda>total.
     let opening_balance = (case opening_balance of
                              None \<Rightarrow> Finite False 0 (- 2)
                            | Some b \<Rightarrow> b)
     in if mode = mode_opening
        then and_then (dec_add opening_balance total) (\<lambda>end_balance.
             Inr (opening_balance, end_balance))
        else and_then (dec_sub opening_balance total) (\<lambda>start_balance.
             Inr (start_balance, opening_balance)))"

text \<open>Lines 188 to 219: the records of the transactions, \<open>seq\<close> counting from 1.\<close>

fun transaction_lines ::
  "pystr \<Rightarrow> pystr \<Rightarrow> pystr \<Rightarrow> nat \<Rightarrow> transaction list \<Rightarrow> error + pystr list" where
  "transaction_lines bank_code branch_code account_number seq [] = Inr []"
| "transaction_lines bank_code branch_code account_number seq (tx # rest) =
     (let ref = format_0d 7 seq;
          label = tx_label tx;
          name = slice 0 31 label
      in and_then (cfonb_encode_amount (tx_amount tx) 2 AMOUNT_WIDTH) (\<lambda>amount_str.
         let line04 = build_line (lit ''04'') bank_code branch_code account_number
                        (strftime_dmy (tx_date tx)) amount_str name ref [] [];
             lines05 = (if length label > 31
                        then [build_line (lit ''05'') bank_code branch_code account_number
                                (strftime_dmy (tx_date tx)) [] [] []
                                (lit ''LIB'') (slice 31 (31 + 70) label)]
                        else [])
         in and_then (transaction_lines bank_code branch_code account_number (seq + 1) rest)
              (\<lambda>more. Inr (line04 # lines05 @ more))))"

text \<open>
  Lines 233 to 237: the lines go to a file opened with the encoding latin1, each
  followed by a newline; \<open>write\<close> raises on a code point above 255.
\<close>

fun write_lines :: "pystr list \<Rightarrow> error + pystr list" where
  "write_lines [] = Inr []"
| "write_lines (line # rest) =
     (if length line \<noteq> CFONB_WIDTH then Inl ValueError
      else if \<not> list_all (\<lambda>c. c < 256) line then Inl UnicodeEncodeError
      else and_then (write_lines rest) (\<lambda>written. Inr (line # written)))"

text \<open>
  \<open>main\<close>, after the command line is parsed: the arguments are \<open>--iban\<close>,
  \<open>--balance-mode\<close> and the rows of the input file; the result is the list of lines
  written to the output file.
\<close>

definition main :: "unicode_db \<Rightarrow> pystr \<Rightarrow> balance_mode \<Rightarrow> pystr list list \<Rightarrow> error + pystr list" where
  "main U iban mode rows =
     and_then (parse_iban_fr U iban) (\<lambda>(bank_code, branch_code, account_number, key).
     and_then (parse_csv_transactions U rows) (\<lambda>(opening_balance, transactions).
     if transactions = [] then Inl SystemExit
     else
       let transactions = sort_key tx_date transactions;
           start_date = tx_date (hd transactions);
           end_date = tx_date (last transactions)
       in and_then (statement_balances mode opening_balance transactions)
            (\<lambda>(start_balance, end_balance).
          and_then (cfonb_encode_amount start_balance 2 AMOUNT_WIDTH) (\<lambda>start_str.
          let line01 = build_line (lit ''01'') bank_code branch_code account_number
                         (strftime_dmy start_date) start_str [] [] [] []
          in and_then (transaction_lines bank_code branch_code account_number 1 transactions)
               (\<lambda>lines04.
             and_then (cfonb_encode_amount end_balance 2 AMOUNT_WIDTH) (\<lambda>end_str.
             let line07 = build_line (lit ''07'') bank_code branch_code account_number
                            (strftime_dmy end_date) end_str [] [] [] []
             in write_lines (line01 # lines04 @ [line07])))))))"


section \<open>csv\_to\_cfonb120.py\<close>

text \<open>\<open>pad_left\<close> and \<open>pad_right\<close>; the argument \<open>None\<close> counts as the empty string.\<close>

definition pad_left :: "pystr option \<Rightarrow> nat \<Rightarrow> nat \<Rightarrow> pystr" where
  "pad_left s len fill =
     (let s = (case s of None \<Rightarrow> [] | Some t \<Rightarrow> t) in take len (rjust s len fill))"

definition pad_right :: "pystr option \<Rightarrow> nat \<Rightarrow> nat \<Rightarrow> pystr" where
  "pad_right s len fill =
     (let s = (case s of None \<Rightarrow> [] | Some t \<Rightarrow> t) in take len (ljust s len fill))"

text \<open>
  \<open>[s[i:i+size] for i in range(0, len(s), size)]\<close>; \<open>range\<close> raises for the step 0.
  The offsets of the range are \<open>k * size\<close> for \<open>k\<close> below \<open>len(s) / size\<close>, rounded up.
\<close>

definition split_into_chunks :: "pystr option \<Rightarrow> nat \<Rightarrow> error + pystr list" where
  "split_into_chunks s sz =
     (let s = (case s of None \<Rightarrow> [] | Some t \<Rightarrow> t) in
      if sz = 0 then Inl ValueError
      else Inr (map (\<lambda>k. slice (k * sz) (k * sz + sz) s)
                    [0 ..< (length s + sz - 1) div sz]))"


section \<open>Unicode tables for evaluation\<close>

text \<open>
  The three tables as the Unicode database has them on the code points below 256.
  Above, this instance takes a code point as its own upper case and as no digit; it
  serves to evaluate the functions on Latin-1 input.
\<close>

definition latin1_upper :: "nat \<Rightarrow> nat list" where
  "latin1_upper c =
     (if 97 \<le> c \<and> c \<le> 122 then [c - 32]
      else if c = 181 then [924]
      else if c = 223 then [83, 83]
      else if 224 \<le> c \<and> c \<le> 254 \<and> c \<noteq> 247 then [c - 32]
      else if c = 255 then [376]
      else [c])"

definition latin1_db :: unicode_db where
  "latin1_db =
     \<lparr>to_upper = latin1_upper,
      decimal_digit = (\<lambda>c. if 48 \<le> c \<and> c \<le> 57 then Some (c - 48) else None),
      digit_char = (\<lambda>c. (48 \<le> c \<and> c \<le> 57) \<or> c = 178 \<or> c = 179 \<or> c = 185)\<rparr>"


section \<open>Notions of the specification\<close>

text \<open>
  The decoder of the sign overpunch: the inverse lookup of a character in the two
  tables, giving the digit and whether the table was \<open>CREDIT_MAP\<close>.
\<close>

definition overpunch_decode :: "nat \<Rightarrow> (nat \<times> bool) option" where
  "overpunch_decode ch =
     (case map_of (map (\<lambda>(k, v). (v, k)) CREDIT_MAP) ch of
        Some d \<Rightarrow> Some (d, True)
      | None \<Rightarrow>
          (case map_of (map (\<lambda>(k, v). (v, k)) DEBIT_MAP) ch of
             Some d \<Rightarrow> Some (d, False)
           | None \<Rightarrow> None))"

text \<open>
  The truncation that the specification asks of the field formatter: keep the
  characters nearest the aligned edge.
\<close>

definition keep_nearest_edge :: "pystr \<Rightarrow> nat \<Rightarrow> pystr \<Rightarrow> pystr" where
  "keep_nearest_edge align width value =
     (if align = lit ''right'' then drop (length value - width) value else take width value)"

(*SPEC-DEFS*)


section \<open>Inputs for evaluation\<close>

text \<open>The default of \<open>--iban\<close>, and the scenario of the specification with its output.\<close>

definition default_iban :: pystr where
  "default_iban = lit ''FR76 3000 4022 3100 0101 7355 454''"

definition scenario_rows :: "pystr list list" where
  "scenario_rows =
     [[lit ''01/01/2024'', [], lit ''Ref1'', lit ''Coffee Shop'', lit ''12,50''],
      [lit ''02/01/2024'', [], lit ''Ref2'',
       lit ''Rent Payment with a very long description exceeding thirty one characters'',
       lit ''-950,00'']]"

definition scenario_lines :: "pystr list" where
  "scenario_lines =
     [lit ''0130004    02231EUR2 00010173554  010124                                                  0000000000000{                '',
      lit ''0430004    02231EUR2 00010173554  010124        REF1 COFFEE SHOP                 0000001  0000000000125{                '',
      lit ''0430004    02231EUR2 00010173554  020124        REF2 RENT PAYMENT WITH A VERY L  0000002  0000000009500}                '',
      lit ''0530004    02231EUR2 00010173554  020124     LIBONG DESCRIPTION EXCEEDING THIRTY ONE CHARACTERS                         '',
      lit ''0730004    02231EUR2 00010173554  020124                                                  0000000009375}                '']"

(*DATA*)

section \<open>Evaluation and basic facts\<close>

lemma and_then_Inl [simp]: "and_then (Inl e) f = Inl e"
  by (simp add: and_then_def)

lemma and_then_Inr [simp]: "and_then (Inr v) f = f v"
  by (simp add: and_then_def)

lemma and_then_eq_Inr:
  "and_then m f = Inr y \<longleftrightarrow> (\<exists>v. m = Inr v \<and> f v = Inr y)"
  by (cases m) simp_all

lemma ndigits_small: "n < 10 \<Longrightarrow> ndigits n = 1"
  by (simp add: ndigits.simps)

lemma ndigits_large: "\<not> n < 10 \<Longrightarrow> ndigits n = Suc (ndigits (n div 10))"
  by (subst ndigits.simps) simp

lemma digits_of_small: "n < 10 \<Longrightarrow> digits_of n = [48 + n]"
  by (simp add: digits_of.simps)

lemma digits_of_large: "\<not> n < 10 \<Longrightarrow> digits_of n = digits_of (n div 10) @ [48 + n mod 10]"
  by (subst digits_of.simps) simp

lemma replicate_num: "replicate (numeral k) x = x # replicate (pred_numeral k) x"
  by (simp add: numeral_eq_Suc)

lemma CREDIT_MAP_eval:
  "CREDIT_MAP = [(48, 123), (49, 65), (50, 66), (51, 67), (52, 68), (53, 69), (54, 70),
                 (55, 71), (56, 72), (57, 73)]"
  by (simp add: CREDIT_MAP_def)

lemma DEBIT_MAP_eval:
  "DEBIT_MAP = [(48, 125), (49, 74), (50, 75), (51, 76), (52, 77), (53, 78), (54, 79),
                (55, 80), (56, 81), (57, 82)]"
  by (simp add: DEBIT_MAP_def)

lemmas encode_eval = replicate_num
  cfonb_encode_amount_def scaled_int_def dec_ge_zero_def dec_abs_def dec_fix_def dec_mul_int_def
  quantize_1_def round_half_even_def dec_to_int_def format_d_def rjust_def dict_get_def
  CREDIT_MAP_eval DEBIT_MAP_eval AMOUNT_WIDTH_def prec_def ndigits_small ndigits_large
  digits_of_small digits_of_large Let_def lit_def

lemma and_then_weak_cong: "m = m' \<Longrightarrow> and_then m f = and_then m' f"
  by simp

lemmas text_eval =
  lit_def strip_def isspace_def split_ws_def replace_chr_def upper_def rjust_def ljust_def
  slice_def startswith_def isdigit_def format_0d_def digits_of_small digits_of_large
  replicate_num Let_def

lemmas csv_eval =
  parse_csv_transactions_def parse_amount_def Decimal_of_str_def parse_numeral_def
  split_sign_def ascii_lower_def is_d_def int_of_digits_def DATE_RE_match_def
  days_in_month_def is_leap_def sanitize_label_def latin1_replace_def latin1_db_def
  latin1_upper_def

lemmas main_eval =
  main_def parse_iban_fr_def statement_balances_def sum_amounts_def dec_add_def dec_sub_def
  copy_negate_def signed_def strftime_dmy_def build_line_def put_def CFONB_WIDTH_def


section \<open>The amount encoder\<close>

lemma dec_fix_sign: "\<exists>c' e'. dec_fix (Finite s c e) = Finite s c' e'"
  by (simp add: dec_fix_def Let_def)

lemma quantize_1_Finite:
  assumes "quantize_1 (Finite s c e) = Inr q"
  shows "\<exists>c'. q = Finite s c' 0"
  using assms by (auto simp: quantize_1_def Let_def split: if_splits)

lemma scaled_int_Finite:
  assumes "scaled_int (Finite s c e) decimals = Inr n"
  shows "\<exists>c1 e1 c2 e2 c3.
           dec_fix (Finite False c e) = Finite False c1 e1 \<and>
           dec_fix (Finite False (c1 * 10 ^ decimals) e1) = Finite False c2 e2 \<and>
           quantize_1 (Finite False c2 e2) = Inr (Finite False c3 0) \<and> n = int c3"
proof -
  obtain c1 e1 where f1: "dec_fix (Finite False c e) = Finite False c1 e1"
    using dec_fix_sign by blast
  obtain c2 e2 where f2: "dec_fix (Finite False (c1 * 10 ^ decimals) e1) = Finite False c2 e2"
    using dec_fix_sign by blast
  from assms f1 f2 obtain q where
    q: "quantize_1 (Finite False c2 e2) = Inr q" and n: "dec_to_int q = Inr n"
    by (auto simp: scaled_int_def dec_abs_def dec_mul_int_def and_then_eq_Inr)
  from quantize_1_Finite [OF q] obtain c3 where q3: "q = Finite False c3 0" by blast
  with n have "n = int c3" by (simp add: dec_to_int_def)
  with f1 f2 q q3 show ?thesis by blast
qed

lemma scaled_int_is_Finite:
  assumes "scaled_int amount decimals = Inr n"
  shows "\<exists>s c e. amount = Finite s c e"
proof (cases amount)
  case (Finite s c e)
  then show ?thesis by blast
next
  case (Infinity s)
  with assms show ?thesis
    by (simp add: scaled_int_def dec_abs_def dec_mul_int_def quantize_1_def)
next
  case (NaN sig)
  with assms show ?thesis
    by (cases sig) (simp_all add: scaled_int_def dec_abs_def dec_mul_int_def quantize_1_def
        dec_to_int_def)
qed

lemma scaled_int_nonneg:
  assumes "scaled_int amount decimals = Inr n"
  shows "0 \<le> n"
proof -
  from scaled_int_is_Finite [OF assms] obtain s c e where "amount = Finite s c e" by blast
  with scaled_int_Finite assms show ?thesis by fastforce
qed

lemma digits_of_range: "set (digits_of n) \<subseteq> {48..57}"
proof (induction n rule: digits_of.induct)
  case (1 n)
  show ?case
  proof (cases "n < 10")
    case True
    then show ?thesis by (subst digits_of.simps) auto
  next
    case False
    have "n mod 10 < 10" by simp
    with False 1 show ?thesis by (subst digits_of.simps) auto
  qed
qed

lemma digits_of_nonempty: "digits_of n \<noteq> []"
  by (subst digits_of.simps) simp

lemma digit_cases:
  "d \<in> {48..57::nat} \<Longrightarrow>
     d = 48 \<or> d = 49 \<or> d = 50 \<or> d = 51 \<or> d = 52 \<or> d = 53 \<or> d = 54 \<or> d = 55 \<or> d = 56 \<or> d = 57"
  by simp arith

lemma decode_credit:
  assumes "d \<in> {48..57}"
  shows "\<exists>ch. dict_get CREDIT_MAP d = Inr ch \<and> overpunch_decode ch = Some (d, True)"
  using digit_cases [OF assms]
  by (auto simp: dict_get_def overpunch_decode_def CREDIT_MAP_eval DEBIT_MAP_eval)

lemma decode_debit:
  assumes "d \<in> {48..57}"
  shows "\<exists>ch. dict_get DEBIT_MAP d = Inr ch \<and> overpunch_decode ch = Some (d, False)"
  using digit_cases [OF assms]
  by (auto simp: dict_get_def overpunch_decode_def CREDIT_MAP_eval DEBIT_MAP_eval)

lemma length_rjust: "length (rjust s w f) = max w (length s)"
  by (simp add: rjust_def)

lemma last_rjust: "s \<noteq> [] \<Longrightarrow> last (rjust s w f) = last s"
  by (simp add: rjust_def)

text \<open>
  Claim C1.  Whenever the encoder returns a field, the field has the given width and is
  the zero-padded digit string of the scaled amount with only its last character
  replaced: by the entry of \<open>CREDIT_MAP\<close> for the last digit when the amount is at
  least zero, by the entry of \<open>DEBIT_MAP\<close> when it is negative.  Looking the last
  character up backwards in the two tables gives back that digit and that sign.
\<close>

theorem overpunch_round_trip:
  assumes "cfonb_encode_amount amount decimals width = Inr field"
  shows "\<exists>n ge. scaled_int amount decimals = Inr n \<and> dec_ge_zero amount = Inr ge \<and>
           (let digits = rjust (format_d n) width 48 in
              length field = width \<and> butlast field = butlast digits \<and>
              last digits \<in> set (lit ''0123456789'') \<and>
              dict_get (if ge then CREDIT_MAP else DEBIT_MAP) (last digits) = Inr (last field) \<and>
              overpunch_decode (last field) = Some (last digits, ge))"
proof -
  from assms obtain ge n enc where
    ge: "dec_ge_zero amount = Inr ge" and n: "scaled_int amount decimals = Inr n"
    and len: "length (format_d n) \<le> width"
    and enc: "dict_get (if ge then CREDIT_MAP else DEBIT_MAP) (last (rjust (format_d n) width 48))
                = Inr enc"
    and field: "field = butlast (rjust (format_d n) width 48) @ [enc]"
    by (auto simp: cfonb_encode_amount_def and_then_eq_Inr Let_def split: if_splits)
  let ?digits = "rjust (format_d n) width 48"
  have fd: "format_d n = digits_of (nat n)"
    using scaled_int_nonneg [OF n] by (simp add: format_d_def)
  have ne: "format_d n \<noteq> []" by (simp add: fd digits_of_nonempty)
  have lw: "length ?digits = width" using len by (simp add: length_rjust)
  have "last ?digits = last (digits_of (nat n))" using ne by (simp add: last_rjust fd)
  also have "\<dots> \<in> set (digits_of (nat n))" by (simp add: digits_of_nonempty)
  finally have dig: "last ?digits \<in> {48..57}" using digits_of_range by blast
  have dec: "overpunch_decode enc = Some (last ?digits, ge)"
    using decode_credit [OF dig] decode_debit [OF dig] enc by (cases ge) auto
  have "?digits \<noteq> []" using ne by (simp add: rjust_def)
  then have "0 < length ?digits" by simp
  then have lf: "length field = width" using lw field by simp
  have lit: "last ?digits \<in> set (lit ''0123456789'')"
    using digit_cases [OF dig] by (auto simp: lit_def)
  show ?thesis
    using ge n field enc dec lf lit by (simp add: Let_def)
qed

theorem overpunch_round_trip_witness:
  "cfonb_encode_amount (Finite True 95000 (- 2)) 2 14 = Inr (lit ''0000000009500}'') \<and>
   overpunch_decode (last (lit ''0000000009500}'')) = Some (48, False)"
proof -
  have h: "cfonb_encode_amount (Finite True 95000 (- 2)) 2 14 = Inr (lit ''0000000009500}'')"
    by (simp add: encode_eval)
  from overpunch_round_trip [OF h] h show ?thesis
    by (auto simp: encode_eval)
qed


section \<open>Records and the output file\<close>

lemma length_put:
  assumes "start \<le> end" and "end \<le> length line"
  shows "length (put line start end v a) = length line"
  using assms by (simp add: put_def Let_def rjust_def ljust_def)

lemma slice_put:
  assumes "start \<le> end" and "end \<le> length line"
  shows "slice start end (put line start end v a) =
           (if a = lit ''right'' then rjust (take (end - start) v) (end - start) 32
            else ljust (take (end - start) v) (end - start) 32)"
  using assms by (simp add: put_def Let_def rjust_def ljust_def slice_def)

lemma length_build_line:
  "length (build_line rec_type bank_code branch_code account_number date_ddmmyy amount_str
             name ref comp_type comp_info) = 120"
  by (simp add: build_line_def Let_def length_put CFONB_WIDTH_def)

lemma write_lines_Inr:
  "write_lines ls = Inr written \<Longrightarrow> written = ls \<and> (\<forall>l\<in>set ls. length l = 120)"
proof (induction ls arbitrary: written)
  case Nil
  then show ?case by simp
next
  case (Cons l ls)
  then show ?case
    by (auto simp: and_then_eq_Inr CFONB_WIDTH_def split: if_splits)
qed

lemma main_Inr:
  assumes "main U iban mode rows = Inr lines"
  shows "\<exists>bank_code branch_code account_number key opening_balance transactions
            start_balance end_balance start_str lines04 end_str.
           parse_iban_fr U iban = Inr (bank_code, branch_code, account_number, key) \<and>
           parse_csv_transactions U rows = Inr (opening_balance, transactions) \<and>
           transactions \<noteq> [] \<and>
           statement_balances mode opening_balance (sort_key tx_date transactions)
             = Inr (start_balance, end_balance) \<and>
           cfonb_encode_amount start_balance 2 AMOUNT_WIDTH = Inr start_str \<and>
           transaction_lines bank_code branch_code account_number 1
             (sort_key tx_date transactions) = Inr lines04 \<and>
           cfonb_encode_amount end_balance 2 AMOUNT_WIDTH = Inr end_str \<and>
           lines =
             build_line (lit ''01'') bank_code branch_code account_number
               (strftime_dmy (tx_date (hd (sort_key tx_date transactions)))) start_str [] [] [] []
             # lines04 @
             [build_line (lit ''07'') bank_code branch_code account_number
               (strftime_dmy (tx_date (last (sort_key tx_date transactions)))) end_str [] [] [] []] \<and>
           write_lines lines = Inr lines"
proof -
  from assms obtain ib where ib: "parse_iban_fr U iban = Inr ib"
    and r1: "(case ib of (bank_code, branch_code, account_number, key) \<Rightarrow>
       and_then (parse_csv_transactions U rows) (\<lambda>(opening_balance, transactions).
     if transactions = [] then Inl SystemExit
     else
       let transactions = sort_key tx_date transactions;
           start_date = tx_date (hd transactions);
           end_date = tx_date (last transactions)
       in and_then (statement_balances mode opening_balance transactions)
            (\<lambda>(start_balance, end_balance).
          and_then (cfonb_encode_amount start_balance 2 AMOUNT_WIDTH) (\<lambda>start_str.
          let line01 = build_line (lit ''01'') bank_code branch_code account_number
                         (strftime_dmy start_date) start_str [] [] [] []
          in and_then (transaction_lines bank_code branch_code account_number 1 transactions)
               (\<lambda>lines04.
             and_then (cfonb_encode_amount end_balance 2 AMOUNT_WIDTH) (\<lambda>end_str.
             let line07 = build_line (lit ''07'') bank_code branch_code account_number
                            (strftime_dmy end_date) end_str [] [] [] []
             in write_lines (line01 # lines04 @ [line07]))))))) = Inr lines"
    unfolding main_def and_then_eq_Inr by blast
  obtain bank_code branch_code account_number key where
    ibe: "ib = (bank_code, branch_code, account_number, key)" by (cases ib) auto
  from r1 [unfolded ibe prod.case and_then_eq_Inr] obtain pc where
    pc: "parse_csv_transactions U rows = Inr pc" and r2: "(case pc of (opening_balance, transactions) \<Rightarrow>
     if transactions = [] then Inl SystemExit
     else
       let transactions = sort_key tx_date transactions;
           start_date = tx_date (hd transactions);
           end_date = tx_date (last transactions)
       in and_then (statement_balances mode opening_balance transactions)
            (\<lambda>(start_balance, end_balance).
          and_then (cfonb_encode_amount start_balance 2 AMOUNT_WIDTH) (\<lambda>start_str.
          let line01 = build_line (lit ''01'') bank_code branch_code account_number
                         (strftime_dmy start_date) start_str [] [] [] []
          in and_then (transaction_lines bank_code branch_code account_number 1 transactions)
               (\<lambda>lines04.
             and_then (cfonb_encode_amount end_balance 2 AMOUNT_WIDTH) (\<lambda>end_str.
             let line07 = build_line (lit ''07'') bank_code branch_code account_number
                            (strftime_dmy end_date) end_str [] [] [] []
             in write_lines (line01 # lines04 @ [line07])))))) = Inr lines"
    by blast
  obtain opening_balance transactions where pce: "pc = (opening_balance, transactions)"
    by (cases pc) auto
  from r2 [unfolded pce prod.case] have ne: "transactions \<noteq> []"
    by (auto split: if_splits)
  let ?txs = "sort_key tx_date transactions"
  from r2 [unfolded pce prod.case] ne obtain sb where
    sb: "statement_balances mode opening_balance ?txs = Inr sb"
    and r3: "(case sb of (start_balance, end_balance) \<Rightarrow>
          and_then (cfonb_encode_amount start_balance 2 AMOUNT_WIDTH) (\<lambda>start_str.
          and_then (transaction_lines bank_code branch_code account_number 1 ?txs)
               (\<lambda>lines04.
             and_then (cfonb_encode_amount end_balance 2 AMOUNT_WIDTH) (\<lambda>end_str.
             write_lines (build_line (lit ''01'') bank_code branch_code account_number
                         (strftime_dmy (tx_date (hd ?txs))) start_str [] [] [] [] # lines04 @ [build_line (lit ''07'') bank_code branch_code account_number
                            (strftime_dmy (tx_date (last ?txs))) end_str [] [] [] []]))))) = Inr lines"
    by (auto simp: Let_def and_then_eq_Inr)
  obtain start_balance end_balance where sbe: "sb = (start_balance, end_balance)"
    by (cases sb) auto
  from r3 [unfolded sbe prod.case and_then_eq_Inr] obtain start_str lines04 end_str where
    a: "cfonb_encode_amount start_balance 2 AMOUNT_WIDTH = Inr start_str"
    and b: "transaction_lines bank_code branch_code account_number 1 ?txs = Inr lines04"
    and c: "cfonb_encode_amount end_balance 2 AMOUNT_WIDTH = Inr end_str"
    and d: "write_lines (build_line (lit ''01'') bank_code branch_code account_number
                         (strftime_dmy (tx_date (hd ?txs))) start_str [] [] [] [] # lines04 @ [build_line (lit ''07'') bank_code branch_code account_number
                            (strftime_dmy (tx_date (last ?txs))) end_str [] [] [] []]) = Inr lines"
    by blast
  from write_lines_Inr [OF d] have e: "lines = build_line (lit ''01'') bank_code branch_code account_number
                         (strftime_dmy (tx_date (hd ?txs))) start_str [] [] [] [] # lines04 @ [build_line (lit ''07'') bank_code branch_code account_number
                            (strftime_dmy (tx_date (last ?txs))) end_str [] [] [] []]" by simp
  with d have f: "write_lines lines = Inr lines" by simp
  show ?thesis
    using ib ibe pc pce ne sb sbe a b c e f by blast
qed

lemma scenario_run: "main latin1_db default_iban mode_opening scenario_rows = Inr scenario_lines"
  by (simp add: default_iban_def scenario_rows_def scenario_lines_def
      text_eval csv_eval main_eval encode_eval cong: let_weak_cong and_then_weak_cong)

text \<open>
  Claim C2.  \<open>build_line\<close> returns a line of exactly 120 characters for every record
  type and all field values, and every line that \<open>main\<close> writes to the output file
  has length 120.
\<close>

theorem line_width_invariant:
  "length (build_line rec_type bank_code branch_code account_number date_ddmmyy amount_str
             name ref comp_type comp_info) = 120 \<and>
   (main U iban mode rows = Inr lines \<longrightarrow> (\<forall>l\<in>set lines. length l = 120))"
proof (intro conjI impI)
  show "length (build_line rec_type bank_code branch_code account_number date_ddmmyy amount_str
             name ref comp_type comp_info) = 120"
    by (rule length_build_line)
next
  assume "main U iban mode rows = Inr lines"
  from main_Inr [OF this] have "write_lines lines = Inr lines" by blast
  from write_lines_Inr [OF this] show "\<forall>l\<in>set lines. length l = 120" by blast
qed

theorem line_width_invariant_witness:
  "main latin1_db default_iban mode_opening scenario_rows = Inr scenario_lines \<and>
   list_all (\<lambda>l. length l = 120) scenario_lines"
  using line_width_invariant [of _ _ _ _ _ _ _ _ _ _ latin1_db default_iban mode_opening
      scenario_rows scenario_lines] scenario_run
  by (simp add: list_all_iff)

text \<open>
  Claim C9, as amended.  A value longer than its field is cut without an error, and
  what is kept is the leading \<open>width\<close> characters for either alignment: \<open>put\<close>
  slices \<open>value[:width]\<close> before it justifies, and \<open>pad_left\<close> and \<open>pad_right\<close>
  slice \<open>[:length]\<close> after they justify an already too long string.
\<close>

theorem truncation_keeps_left:
  assumes "start \<le> end" and "end \<le> length line" and "end - start < length v"
  shows "slice start end (put line start end v a) = take (end - start) v \<and>
         pad_left (Some v) (end - start) f = take (end - start) v \<and>
         pad_right (Some v) (end - start) f = take (end - start) v"
  using assms by (simp add: slice_put rjust_def ljust_def pad_left_def pad_right_def)

theorem truncation_keeps_left_witness:
  "slice 1 3 (put (lit ''....'') 1 3 (lit ''ABC'') (lit ''right'')) = lit ''AB'' \<and>
   pad_left (Some (lit ''ABC'')) 2 32 = lit ''AB'' \<and>
   pad_right (Some (lit ''ABC'')) 2 32 = lit ''AB''"
  using truncation_keeps_left [of 1 3 "lit ''....''" "lit ''ABC''" "lit ''right''" 32]
  by (simp add: lit_def)

text \<open>
  The claim as stated fails for a right-aligned field: of \<open>ABC\<close> in a field of width 2
  the code keeps \<open>AB\<close>, the characters farthest from the aligned edge.
\<close>

theorem right_aligned_truncation_counterexample:
  "slice 1 3 (put (lit ''....'') 1 3 (lit ''ABC'') (lit ''right''))
     \<noteq> keep_nearest_edge (lit ''right'') 2 (lit ''ABC'')"
  by (simp add: put_def slice_def lit_def rjust_def keep_nearest_edge_def)


section \<open>Labels\<close>

text \<open>
  Claim C7, at a failing input.  For a sanitized label of 102 characters, 101 times
  \<open>A\<close> and one \<open>Z\<close>, \<open>main\<close> writes one transaction record with the first 31
  characters and a single continuation record with the next 70: the last character
  is in no record.  \<open>split_into_chunks\<close> of the other script keeps it.
\<close>

theorem long_label_loses_text:
  "main latin1_db (default_iban) mode_opening
     [[lit ''01/01/2024'', replicate 101 65 @ [90], [], [], lit ''1,00'']]
   = Inr [lit ''0130004    02231EUR2 00010173554  010124                                                  0000000000000{                '',
      lit ''0430004    02231EUR2 00010173554  010124        AAAAAAAAAAAAAAAAAAAAAAAAAAAAAAA  0000001  0000000000010{                '',
      lit ''0530004    02231EUR2 00010173554  010124     LIBAAAAAAAAAAAAAAAAAAAAAAAAAAAAAAAAAAAAAAAAAAAAAAAAAAAAAAAAAAAAAAAAAAAAAA  '',
      lit ''0730004    02231EUR2 00010173554  010124                                                  0000000000010{                ''] \<and>
   sanitize_label latin1_db (replicate 101 65 @ [90]) = replicate 101 65 @ [90] \<and>
   split_into_chunks (Some (replicate 101 65 @ [90])) 70
     = Inr [replicate 70 65, replicate 31 65 @ [90]]"
  by (simp add: default_iban_def text_eval csv_eval main_eval encode_eval split_into_chunks_def
      upt_conv_Cons
      cong: let_weak_cong and_then_weak_cong)


section \<open>Rows of the input\<close>

text \<open>
  Claim C8, at a failing input.  An account-summary row after the first transaction
  row, with the balance cell \<open>abc\<close>: \<open>parse_amount\<close> raises \<open>ValueError\<close>, nothing
  catches it, and the conversion fails.
\<close>

theorem unparsable_balance_aborts:
  "parse_csv_transactions latin1_db
     [[lit ''01/01/2024'', lit ''A'', [], [], lit ''1,00''],
      [lit ''Solde'', [], [], lit ''31/12/2023'', [], lit ''abc'']] = Inl ValueError \<and>
   main latin1_db (default_iban) mode_opening
     [[lit ''01/01/2024'', lit ''A'', [], [], lit ''1,00''],
      [lit ''Solde'', [], [], lit ''31/12/2023'', [], lit ''abc'']] = Inl ValueError"
  by (simp add: default_iban_def text_eval csv_eval main_eval encode_eval
      cong: let_weak_cong and_then_weak_cong)

(*CLAIMS*)

end
